theory Spec2Isabelle
  imports Complex_Main "HOL-Library.Word"
begin

section \<open>Distance Evaluator\<close>

text \<open>
  The firmware computes with IEEE \<^verbatim>\<open>double\<close> and \<^verbatim>\<open>float\<close>; the embedding uses the
  real numbers throughout, so rounding is not part of the model. \<open>radians\<close> is the Arduino
  macro \<^verbatim>\<open>(deg) * DEG_TO_RAD\<close>, and \<open>atan2\<close> is the C library function, written out
  quadrant by quadrant.
\<close>

definition radians :: "real \<Rightarrow> real" where
  "radians deg = deg * (pi / 180)"

definition atan2 :: "real \<Rightarrow> real \<Rightarrow> real" where
  "atan2 y x =
     (if 0 < x then arctan (y / x)
      else if x < 0 then (if 0 \<le> y then arctan (y / x) + pi else arctan (y / x) - pi)
      else if 0 < y then pi / 2
      else if y < 0 then - (pi / 2)
      else 0)"

definition getDistance :: "real \<Rightarrow> real \<Rightarrow> real \<Rightarrow> real \<Rightarrow> real" where
  "getDistance lat1 lon1 lat2 lon2 =
     (let R = 6371;
          dLat = radians (lat2 - lat1);
          dLon = radians (lon2 - lon1);
          a = sin (dLat / 2) * sin (dLat / 2) +
              cos (radians lat1) * cos (radians lat2) *
              sin (dLon / 2) * sin (dLon / 2);
          c = 2 * atan2 (sqrt a) (sqrt (1 - a))
      in R * c)"

section \<open>Data model\<close>

type_synonym ulong = "32 word"
type_synonym uint8 = "8 word"

text \<open>What TinyGPS++ delivers for one committed fix: position, altitude, ground speed
  and the UTC date and time of the sentence.\<close>

record gps_fix =
  gpsLat :: real
  gpsLon :: real
  gpsAlt :: real
  gpsSpeed :: real
  gpsYear :: nat
  gpsMonth :: nat
  gpsDay :: nat
  gpsHour :: nat
  gpsMinute :: nat
  gpsSecond :: nat

text \<open>A track file is the sequence of elements written to it; the text rendering of
  each element (decimal places, zero padding) is not modelled. A file is named by the
  numbers \<^verbatim>\<open>sprintf\<close> puts into \<^verbatim>\<open>Track_%02d.%02d.%04d-%02d-%02d.gpx\<close>: day, month,
  year, hour, minute.\<close>

type_synonym track_name = "nat \<times> nat \<times> nat \<times> nat \<times> nat"
type_synonym utc_stamp = "nat \<times> nat \<times> nat \<times> nat \<times> nat \<times> nat"

datatype gpx_item =
    XmlDecl
  | GpxOpen
  | TrkOpen
  | TrksegOpen
  | Trkpt real real real utc_stamp
  | TrksegClose
  | TrkClose
  | GpxClose

text \<open>Effects on the collaborators, kept as a trace stamped with the uptime at which
  they happen: the calls to the WiFi driver, the calls to \<open>logEvent\<close>, and the serial
  line that reports a storage failure (other serial output is left out).\<close>

datatype wifi_call = Disconnect | ModeSTA | Begin string string | ModeAP | SoftAP

datatype event = WiFi wifi_call | Log string | SerialMsg string

text \<open>The global variables of the sketch, and with them the file system, the last fix
  held by the GPS object, the clock and the trace. \<open>uptime\<close> is the time since boot in
  milliseconds; \<open>millis()\<close> is its low 32 bits (\<^verbatim>\<open>unsigned long\<close> has 32 bits on the
  ESP32). The clock advances by every \<open>delay(n)\<close> (by \<open>n\<close>), by the busy-wait of a connect
  attempt and by the time the environment lets pass between two cycles; statements
  between two readings of \<open>millis()\<close> take no time otherwise. \<open>avgSpeed\<close> is \<open>None\<close>
  when the last division that computed it had a zero divisor (the float is then not a
  finite number). \<open>gpxFile\<close> is the open handle (\<open>None\<close>: the handle tests false).\<close>

record tracker =
  wifiSsid :: string
  wifiPassword :: string
  wifiConnected :: bool
  inAPMode :: bool
  stationConnectAttempts :: uint8
  stationConnectFailure :: bool
  lastModeSwitchTime :: ulong
  homeZoneLat :: real
  homeZoneLon :: real
  isTracking :: bool
  hasLeftHome :: bool
  totalDistance :: real
  maxSpeed :: real
  avgSpeed :: "real option"
  elevationGain :: real
  pointCount :: ulong
  lastLat :: real
  lastLon :: real
  lastAlt :: real
  trackingStartTime :: ulong
  lastLogTime :: ulong
  autoTracking :: bool
  currentGpxFilename :: track_name
  gpxFile :: "track_name option"
  files :: "track_name \<rightharpoonup> gpx_item list"
  gps :: gps_fix
  gpsValid :: bool
  serverStarted :: bool
  uptime :: nat
  events :: "(nat \<times> event) list"

text \<open>What the environment decides during one call: after how many milliseconds from
  \<^verbatim>\<open>WiFi.begin\<close> the driver reports \<^verbatim>\<open>WL_CONNECTED\<close> (\<open>None\<close>: never), and whether
  \<^verbatim>\<open>LittleFS.open\<close> of a track file succeeds.\<close>

record environment =
  wifiReady :: "nat option"
  fsOpenOk :: bool

definition triggerRadiusKm :: real where
  "triggerRadiusKm = 0.1"

definition logInterval :: ulong where
  "logInterval = 1000"

definition modeSwitchInterval :: ulong where
  "modeSwitchInterval = 15000"

definition maxStationConnectAttempts :: uint8 where
  "maxStationConnectAttempts = 3"

definition millis :: "tracker \<Rightarrow> ulong" where
  "millis s = of_nat (uptime s)"

definition delay :: "nat \<Rightarrow> tracker \<Rightarrow> tracker" where
  "delay n s = s\<lparr>uptime := uptime s + n\<rparr>"

definition emit :: "event \<Rightarrow> tracker \<Rightarrow> tracker" where
  "emit e s = s\<lparr>events := events s @ [(uptime s, e)]\<rparr>"

definition logEvent :: "string \<Rightarrow> tracker \<Rightarrow> tracker" where
  "logEvent message s = emit (Log message) s"

section \<open>Connectivity state machine\<close>

definition startAccessPoint :: "tracker \<Rightarrow> tracker" where
  "startAccessPoint s =
     (let s1 = s\<lparr>lastModeSwitchTime := millis s\<rparr>;
          s2 = emit (WiFi ModeAP) s1;
          s3 = emit (WiFi SoftAP) s2;
          s4 = logEvent ''WiFi started in AP mode'' s3
      in s4\<lparr>wifiConnected := True, inAPMode := True\<rparr>)"

text \<open>\<^verbatim>\<open>WiFi.status() == WL_CONNECTED\<close> at uptime \<open>u\<close>, for a \<^verbatim>\<open>WiFi.begin\<close> at
  uptime \<open>t0\<close>.\<close>

definition wifiUp :: "nat option \<Rightarrow> nat \<Rightarrow> nat \<Rightarrow> bool" where
  "wifiUp ready t0 u = (case ready of None \<Rightarrow> False | Some d \<Rightarrow> t0 + d \<le> u)"

text \<open>The busy-wait of \<open>startClientWiFi\<close>: it returns the uptime at which the loop is
  left. \<open>t0\<close> is the uptime at \<^verbatim>\<open>startAttemptTime = millis()\<close>.\<close>

function connectWait :: "nat option \<Rightarrow> nat \<Rightarrow> nat \<Rightarrow> nat" where
  "connectWait ready t0 u =
     (if \<not> wifiUp ready t0 u \<and> (of_nat u - of_nat t0 :: ulong) < 10000
      then connectWait ready t0 (u + 500)
      else u)"
  by pat_completeness auto
termination
proof (relation "measure (\<lambda>(ready, t0, u). 10500 - unat (of_nat u - of_nat t0 :: ulong))")
  show "wf (measure (\<lambda>(ready, t0, u). 10500 - unat (of_nat u - of_nat t0 :: ulong)))"
    by simp
next
  fix ready :: "nat option" and t0 u :: nat
  assume a: "\<not> wifiUp ready t0 u \<and> (of_nat u - of_nat t0 :: ulong) < 10000"
  let ?d = "of_nat u - of_nat t0 :: ulong"
  have lt: "unat ?d < 10000"
    using a by (simp add: word_less_nat_alt)
  have e: "(of_nat (u + 500) - of_nat t0 :: ulong) = ?d + 500"
    by simp
  have "unat (?d + 500) = unat ?d + 500"
    using lt by (simp add: unat_word_ariths)
  then have "unat (of_nat (u + 500) - of_nat t0 :: ulong) = unat ?d + 500"
    by (simp only: e)
  then show "((ready, t0, u + 500), (ready, t0, u))
      \<in> measure (\<lambda>(ready, t0, u). 10500 - unat (of_nat u - of_nat t0 :: ulong))"
    using lt by simp
qed

declare connectWait.simps [simp del]

definition startClientWiFi :: "environment \<Rightarrow> tracker \<Rightarrow> tracker" where
  "startClientWiFi env s =
     (let s1 = s\<lparr>lastModeSwitchTime := millis s\<rparr>;
          s2 = emit (WiFi ModeSTA) s1;
          s3 = emit (WiFi (Begin (wifiSsid s2) (wifiPassword s2))) s2;
          t0 = uptime s3;
          s4 = s3\<lparr>uptime := connectWait (wifiReady env) t0 t0\<rparr>
      in if wifiUp (wifiReady env) t0 (uptime s4)
         then (logEvent ''WiFi connected as Station'' s4)
                \<lparr>wifiConnected := True, inAPMode := False,
                 stationConnectAttempts := 0, stationConnectFailure := False\<rparr>
         else
           (let s5 = s4\<lparr>stationConnectAttempts := stationConnectAttempts s4 + 1\<rparr>
            in if stationConnectAttempts s5 \<ge> maxStationConnectAttempts
               then
                 (let s6 = logEvent ''Max station connect attempts reached, switching to AP mode'' s5;
                      s7 = s6\<lparr>stationConnectFailure := True\<rparr>;
                      s8 = startAccessPoint s7
                  in s8\<lparr>stationConnectAttempts := 0\<rparr>)
               else s5))"

definition updateWiFiMode :: "environment \<Rightarrow> real \<Rightarrow> tracker \<Rightarrow> tracker" where
  "updateWiFiMode env distanceFromHome s =
     (if millis s - lastModeSwitchTime s < modeSwitchInterval then s
      else if length (wifiSsid s) = 0 \<or> length (wifiPassword s) = 0 then
        (if \<not> inAPMode s
         then logEvent ''No WiFi credentials provided. Forced AP mode.'' (startAccessPoint s)
         else s)
      else if distanceFromHome < triggerRadiusKm then
        (if inAPMode s \<and> \<not> stationConnectFailure s then
           startClientWiFi env
             (logEvent ''Switching to Station mode'' (delay 1000 (emit (WiFi Disconnect) s)))
         else if \<not> wifiConnected s \<and> \<not> stationConnectFailure s then
           startClientWiFi env s
         else s)
      else
        (if \<not> inAPMode s then
           (let s1 = (if wifiConnected s \<and> \<not> inAPMode s
                      then delay 500 (emit (WiFi Disconnect) s) else s)
            in logEvent ''Switching to AP mode'' (startAccessPoint s1))
         else s))"

section \<open>Track Writer\<close>

definition fileAppend :: "track_name \<Rightarrow> gpx_item list \<Rightarrow> (track_name \<rightharpoonup> gpx_item list)
    \<Rightarrow> (track_name \<rightharpoonup> gpx_item list)" where
  "fileAppend n items fs = fs(n \<mapsto> (case fs n of None \<Rightarrow> [] | Some c \<Rightarrow> c) @ items)"

definition gpxHeader :: "gpx_item list" where
  "gpxHeader = [XmlDecl, GpxOpen, TrkOpen, TrksegOpen]"

definition gpxFooter :: "gpx_item list" where
  "gpxFooter = [TrksegClose, TrkClose, GpxClose]"

text \<open>Opening with mode \<^verbatim>\<open>"w"\<close> creates the file or truncates it. On failure the
  function returns early: the handle tests false and \<open>trackingStartTime\<close> keeps its
  old value.\<close>

definition createNewGpx :: "environment \<Rightarrow> tracker \<Rightarrow> tracker" where
  "createNewGpx env s =
     (let y = gpsYear (gps s);
          year = (if y < 100 then y + 2000 else y);
          name = (gpsDay (gps s), gpsMonth (gps s), year, gpsHour (gps s), gpsMinute (gps s));
          s1 = s\<lparr>currentGpxFilename := name\<rparr>
      in if \<not> fsOpenOk env
         then emit (SerialMsg ''Failed to open GPX file for logging'') (s1\<lparr>gpxFile := None\<rparr>)
         else s1\<lparr>gpxFile := Some name,
                 files := (files s1)(name \<mapsto> gpxHeader),
                 trackingStartTime := millis s1\<rparr>)"

definition writeGpxPoint :: "real \<Rightarrow> real \<Rightarrow> utc_stamp \<Rightarrow> real \<Rightarrow> tracker \<Rightarrow> tracker" where
  "writeGpxPoint lat lon stamp alt s =
     (case gpxFile s of
        None \<Rightarrow> s
      | Some n \<Rightarrow> s\<lparr>files := fileAppend n [Trkpt lat lon alt stamp] (files s)\<rparr>)"

text \<open>The block \<^verbatim>\<open>if (gpxFile) { ...println("</trkseg>") ... gpxFile.close(); }\<close>, which
  the automatic stop and the manual stop both contain.\<close>

definition closeGpx :: "tracker \<Rightarrow> tracker" where
  "closeGpx s =
     (case gpxFile s of
        None \<Rightarrow> s
      | Some n \<Rightarrow> s\<lparr>files := fileAppend n gpxFooter (files s), gpxFile := None\<rparr>)"

section \<open>Tracking session state machine\<close>

text \<open>The block \<^verbatim>\<open>if (autoTracking) { ... }\<close> of \<open>loop\<close>.\<close>

definition autoTrack :: "environment \<Rightarrow> gps_fix \<Rightarrow> real \<Rightarrow> tracker \<Rightarrow> tracker" where
  "autoTrack env f distanceFromHome s =
     (if autoTracking s then
        (let s1 =
           (if distanceFromHome > triggerRadiusKm \<and> \<not> hasLeftHome s then
              (let a = logEvent ''Left home zone; auto starting tracking'' s;
                   b = a\<lparr>hasLeftHome := True, isTracking := True\<rparr>;
                   c = createNewGpx env b
               in c\<lparr>lastLat := gpsLat f, lastLon := gpsLon f, lastAlt := gpsAlt f,
                     lastLogTime := millis c, pointCount := 1\<rparr>)
            else s)
         in if distanceFromHome < triggerRadiusKm \<and> isTracking s1 then
              (let a = logEvent ''Returned home; auto stopping tracking'' s1;
                   b = closeGpx a
               in b\<lparr>isTracking := False, hasLeftHome := False,
                     totalDistance := 0, pointCount := 0\<rparr>)
            else s1)
      else s)"

text \<open>The block \<^verbatim>\<open>if (isTracking && (millis() - lastLogTime > logInterval)) { ... }\<close>
  of \<open>loop\<close>.\<close>

definition logPoint :: "gps_fix \<Rightarrow> tracker \<Rightarrow> tracker" where
  "logPoint f s =
     (if isTracking s \<and> millis s - lastLogTime s > logInterval then
        (let incDistance = getDistance (lastLat s) (lastLon s) (gpsLat f) (gpsLon f)
         in if incDistance > 0.005 then
              (let total = totalDistance s + incDistance;
                   top = (if gpsSpeed f > maxSpeed s then gpsSpeed f else maxSpeed s);
                   ms = millis s - trackingStartTime s;
                   avg = (if ms = 0 then None
                          else Some (total / (real (unat ms) / 3600000)));
                   gain = (if gpsAlt f > lastAlt s
                           then elevationGain s + (gpsAlt f - lastAlt s)
                           else elevationGain s);
                   s1 = s\<lparr>totalDistance := total, maxSpeed := top, avgSpeed := avg,
                          elevationGain := gain\<rparr>;
                   y = gpsYear f;
                   year = (if y < 100 then y + 2000 else y);
                   s2 = writeGpxPoint (gpsLat f) (gpsLon f)
                          (year, gpsMonth f, gpsDay f, gpsHour f, gpsMinute f, gpsSecond f)
                          (gpsAlt f) s1
               in s2\<lparr>lastLat := gpsLat f, lastLon := gpsLon f, lastAlt := gpsAlt f,
                      lastLogTime := millis s2, pointCount := pointCount s2 + 1\<rparr>)
            else s)
      else s)"

text \<open>The body of \<^verbatim>\<open>if (gps.location.isUpdated()) { ... }\<close>.\<close>

definition processFix :: "environment \<Rightarrow> gps_fix \<Rightarrow> tracker \<Rightarrow> tracker" where
  "processFix env f s =
     (let distanceFromHome = getDistance (gpsLat f) (gpsLon f) (homeZoneLat s) (homeZoneLon s);
          s1 = updateWiFiMode env distanceFromHome s;
          s2 = autoTrack env f distanceFromHome s1
      in logPoint f s2)"

section \<open>Commands of the web server\<close>

text \<open>The requests that change the controller's state. Every other endpoint (dashboard,
  log, downloads, deleting stored tracks) is \<open>OtherRequest\<close> and leaves it unchanged; the
  time such a request takes counts as time elapsed before the next cycle. The log lines
  of \<open>setHome\<close> and \<open>toggleAutoTrack\<close> are kept without the values the sketch appends
  to them.\<close>

datatype request =
    SetHome
  | ToggleTracking
  | ToggleAutoTrack
  | SaveWifi string string
  | OtherRequest

definition setHome :: "tracker \<Rightarrow> tracker" where
  "setHome s =
     (if gpsValid s
      then logEvent ''Home set to: '' (s\<lparr>homeZoneLat := gpsLat (gps s), homeZoneLon := gpsLon (gps s)\<rparr>)
      else s)"

definition toggleTracking :: "environment \<Rightarrow> tracker \<Rightarrow> tracker" where
  "toggleTracking env s =
     (if isTracking s then
        (let a = logEvent ''Manual stop tracking triggered'' s;
             b = closeGpx a
         in b\<lparr>isTracking := False, hasLeftHome := False, totalDistance := 0, pointCount := 0\<rparr>)
      else
        (let a = logEvent ''Manual start tracking triggered'' s;
             b = a\<lparr>isTracking := True, hasLeftHome := True\<rparr>;
             c = createNewGpx env b
         in c\<lparr>pointCount := 1, trackingStartTime := millis c\<rparr>))"

definition toggleAutoTrack :: "tracker \<Rightarrow> tracker" where
  "toggleAutoTrack s =
     logEvent ''Auto Tracking toggled'' (s\<lparr>autoTracking := \<not> autoTracking s\<rparr>)"

definition saveWifi :: "environment \<Rightarrow> string \<Rightarrow> string \<Rightarrow> tracker \<Rightarrow> tracker" where
  "saveWifi env ssid pass s =
     (let s1 = s\<lparr>wifiSsid := ssid, wifiPassword := pass\<rparr>;
          s2 = logEvent ''WiFi credentials updated'' s1;
          s3 = delay 3000 s2
      in if length (wifiSsid s3) > 0 \<and> length (wifiPassword s3) > 0
         then startClientWiFi env s3
         else startAccessPoint s3)"

definition handleRequest :: "environment \<Rightarrow> request \<Rightarrow> tracker \<Rightarrow> tracker" where
  "handleRequest env r s =
     (case r of
        SetHome \<Rightarrow> setHome s
      | ToggleTracking \<Rightarrow> toggleTracking env s
      | ToggleAutoTrack \<Rightarrow> toggleAutoTrack s
      | SaveWifi ssid pass \<Rightarrow> saveWifi env ssid pass s
      | OtherRequest \<Rightarrow> s)"

section \<open>Controller loop\<close>

text \<open>One modelled cycle is one iteration of \<open>loop\<close> that may see a fix or a request.
  \<open>elapsed\<close> is the time that passed since the previous modelled cycle: iterations that
  saw neither (they change the clock only) and running time outside the explicit
  delays. \<open>gpsFix\<close> is \<open>Some f\<close> when the location was updated. The status LEDs are
  driven from the state and do not change it; they are left out.\<close>

record cycle_input =
  elapsed :: nat
  gpsFix :: "gps_fix option"
  pending :: "request option"
  env :: environment

definition loop :: "cycle_input \<Rightarrow> tracker \<Rightarrow> tracker" where
  "loop inp s =
     (let s0 = delay (elapsed inp) s;
          s1 = (case gpsFix inp of
                  None \<Rightarrow> s0
                | Some f \<Rightarrow> processFix (env inp) f (s0\<lparr>gps := f, gpsValid := True\<rparr>));
          s2 = (if wifiConnected s1 then
                  (case pending inp of
                     None \<Rightarrow> s1
                   | Some r \<Rightarrow> if serverStarted s1 then handleRequest (env inp) r s1 else s1)
                else s1)
      in delay 1 s2)"

definition run :: "cycle_input list \<Rightarrow> tracker \<Rightarrow> tracker" where
  "run inputs s = foldl (\<lambda>st inp. loop inp st) s inputs"

text \<open>What \<open>setup\<close> reads: the stored credentials and home location, whether the file
  system mounts, and the environment of its connect attempt. The function \<open>setup\<close> of the
  sketch is \<open>setupDevice\<close> here: it returns early when the mount fails, before the WiFi
  and the web server are started.\<close>

record boot_config =
  cfgSsid :: string
  cfgPassword :: string
  cfgHomeLat :: real
  cfgHomeLon :: real
  cfgMountOk :: bool
  cfgEnv :: environment

definition initialState :: "boot_config \<Rightarrow> tracker" where
  "initialState cfg =
     \<lparr>wifiSsid = cfgSsid cfg, wifiPassword = cfgPassword cfg,
      wifiConnected = False, inAPMode = False,
      stationConnectAttempts = 0, stationConnectFailure = False,
      lastModeSwitchTime = 0,
      homeZoneLat = cfgHomeLat cfg, homeZoneLon = cfgHomeLon cfg,
      isTracking = False, hasLeftHome = False,
      totalDistance = 0, maxSpeed = 0, avgSpeed = Some 0, elevationGain = 0,
      pointCount = 0, lastLat = 0, lastLon = 0, lastAlt = 0,
      trackingStartTime = 0, lastLogTime = 0,
      autoTracking = True,
      currentGpxFilename = (0, 0, 0, 0, 0), gpxFile = None, files = Map.empty,
      gps = \<lparr>gpsLat = 0, gpsLon = 0, gpsAlt = 0, gpsSpeed = 0, gpsYear = 0, gpsMonth = 0,
             gpsDay = 0, gpsHour = 0, gpsMinute = 0, gpsSecond = 0\<rparr>,
      gpsValid = False, serverStarted = False,
      uptime = 0, events = []\<rparr>"

definition setupDevice :: "boot_config \<Rightarrow> tracker" where
  "setupDevice cfg =
     (let s = initialState cfg
      in if \<not> cfgMountOk cfg then s
         else
           (let s1 = (if length (wifiSsid s) = 0 \<or> length (wifiPassword s) = 0
                      then startAccessPoint s
                      else startClientWiFi (cfgEnv cfg) s)
            in logEvent ''System started'' (s1\<lparr>serverStarted := True\<rparr>)))"

section \<open>Auxiliary notions for the proofs\<close>

text \<open>The number of automatic Idle-to-Recording transitions a trace records: each one
  starts with the call \<^verbatim>\<open>logEvent("Left home zone; auto starting tracking")\<close>.\<close>

definition autoStartLog :: "(nat \<times> event) \<Rightarrow> bool" where
  "autoStartLog te = (snd te = Log ''Left home zone; auto starting tracking'')"

definition autoStarts :: "tracker \<Rightarrow> nat" where
  "autoStarts s = length (filter autoStartLog (events s))"

text \<open>A state with the variables of the connectivity machine, the clock and the trace
  erased: two states agree on it exactly when they agree on everything else.\<close>

definition session :: "tracker \<Rightarrow> tracker" where
  "session s = s\<lparr>wifiConnected := False, inAPMode := False,
            stationConnectAttempts := 0, stationConnectFailure := False,
            lastModeSwitchTime := 0, uptime := 0, events := []\<rparr>"


text \<open>The check \<^verbatim>\<open>WiFi.status() == WL_CONNECTED\<close> after the busy-wait of a connect
  attempt started in state \<open>s\<close> fails.\<close>

definition connectTimesOut :: "environment \<Rightarrow> tracker \<Rightarrow> bool" where
  "connectTimesOut e s =
     (\<not> wifiUp (wifiReady e) (uptime s) (connectWait (wifiReady e) (uptime s) (uptime s)))"

text \<open>The number of client connect attempts a trace records (calls of \<^verbatim>\<open>WiFi.begin\<close>).\<close>

definition connectAttemptEvent :: "(nat \<times> event) \<Rightarrow> bool" where
  "connectAttemptEvent te = (case snd te of WiFi (Begin a b) \<Rightarrow> True | _ \<Rightarrow> False)"

definition connectAttempts :: "tracker \<Rightarrow> nat" where
  "connectAttempts s = length (filter connectAttemptEvent (events s))"





text \<open>While the session is recording, the session-start time lies strictly in the
  past.\<close>

definition startTimeBehind :: "tracker \<Rightarrow> bool" where
  "startTimeBehind s = (isTracking s \<longrightarrow> unat (trackingStartTime s) < uptime s)"




text \<open>An open handle belongs to a recording session; a recording session has an open
  handle.\<close>

definition handleTracked :: "tracker \<Rightarrow> bool" where
  "handleTracked s = (gpxFile s \<noteq> None \<longrightarrow> isTracking s)"

definition trackedHandle :: "tracker \<Rightarrow> bool" where
  "trackedHandle s = (isTracking s \<longrightarrow> gpxFile s \<noteq> None)"

text \<open>The file name \<open>createNewGpx\<close> derives from the date and time of a fix.\<close>

definition trackNameOf :: "gps_fix \<Rightarrow> track_name" where
  "trackNameOf g =
     (gpsDay g, gpsMonth g, (if gpsYear g < 100 then gpsYear g + 2000 else gpsYear g),
      gpsHour g, gpsMinute g)"

subsection \<open>Concrete scenarios\<close>

definition envOk :: environment where
  "envOk = \<lparr>wifiReady = Some 0, fsOpenOk = True\<rparr>"

definition envStorageFails :: environment where
  "envStorageFails = \<lparr>wifiReady = Some 0, fsOpenOk = False\<rparr>"

definition envWifiDown :: environment where
  "envWifiDown = \<lparr>wifiReady = None, fsOpenOk = True\<rparr>"

definition cfgNoCredentials :: boot_config where
  "cfgNoCredentials = \<lparr>cfgSsid = [], cfgPassword = [], cfgHomeLat = 0, cfgHomeLon = 0,
      cfgMountOk = True, cfgEnv = envOk\<rparr>"

definition cfgHomeNetwork :: boot_config where
  "cfgHomeNetwork = \<lparr>cfgSsid = ''home'', cfgPassword = ''secret'', cfgHomeLat = 0,
      cfgHomeLon = 0, cfgMountOk = True, cfgEnv = envOk\<rparr>"

definition cfgNetworkDown :: boot_config where
  "cfgNetworkDown = \<lparr>cfgSsid = ''home'', cfgPassword = ''secret'', cfgHomeLat = 0,
      cfgHomeLon = 0, cfgMountOk = True, cfgEnv = envWifiDown\<rparr>"

definition fixAt :: "real \<Rightarrow> real \<Rightarrow> real \<Rightarrow> real \<Rightarrow> gps_fix" where
  "fixAt lat lon alt speed = \<lparr>gpsLat = lat, gpsLon = lon, gpsAlt = alt, gpsSpeed = speed,
      gpsYear = 25, gpsMonth = 6, gpsDay = 15, gpsHour = 12, gpsMinute = 0, gpsSecond = 0\<rparr>"

definition northPole :: gps_fix where
  "northPole = fixAt 90 0 100 5"

definition farEast :: gps_fix where
  "farEast = fixAt 0 180 150 7"

definition atHome :: gps_fix where
  "atHome = fixAt 0 0 0 0"

definition fixCycle :: "nat \<Rightarrow> gps_fix \<Rightarrow> environment \<Rightarrow> cycle_input" where
  "fixCycle ms f e = \<lparr>elapsed = ms, gpsFix = Some f, pending = None, env = e\<rparr>"

definition requestCycle :: "nat \<Rightarrow> request \<Rightarrow> environment \<Rightarrow> cycle_input" where
  "requestCycle ms r e = \<lparr>elapsed = ms, gpsFix = None, pending = Some r, env = e\<rparr>"

text \<open>The device without credentials, home at \<open>(0, 0)\<close>, after one cycle that saw a fix
  at the north pole: the session is recording.\<close>

definition bootIdle :: tracker where
  "bootIdle = setupDevice cfgNoCredentials"

definition recordingAtPole :: tracker where
  "recordingAtPole = run [fixCycle 0 northPole envOk] bootIdle"



definition bootOffline :: tracker where
  "bootOffline = setupDevice cfgNetworkDown"

definition twoFailures :: tracker where
  "twoFailures = run [fixCycle 5000 atHome envWifiDown] bootOffline"



section \<open>Facts about the distance function\<close>

lemma getDistance_same: "getDistance lat lon lat lon = 0"
  by (simp add: getDistance_def radians_def atan2_def)



lemma atan2_diag: "0 < x \<Longrightarrow> atan2 x x = pi / 4"
  by (simp add: atan2_def arctan_one)


lemma d_pole_home: "getDistance 90 0 0 0 = 6371 * (pi / 2)"
proof -
  have r: "radians (0 - 90) / 2 = - (pi / 4)" "radians 90 = pi / 2" "radians 0 = 0"
    "radians (0 - 0) / 2 = 0"
    by (simp_all add: radians_def)
  have a: "sin (radians (0 - 90) / 2) * sin (radians (0 - 90) / 2) +
      cos (radians 90) * cos (radians 0) * sin (radians (0 - 0) / 2) * sin (radians (0 - 0) / 2)
      = 1 / 2"
    unfolding r by (simp add: sin_45)
  have b: "sqrt (1 - 1 / 2) = sqrt (1 / 2)" by simp
  have c: "atan2 (sqrt (1 / 2)) (sqrt (1 / 2)) = pi / 4"
    by (rule atan2_diag) simp
  show ?thesis
    unfolding getDistance_def Let_def a b c by simp
qed




section \<open>The connectivity machine leaves the session alone\<close>

lemma session_upd [simp]:
  "session (s\<lparr>wifiConnected := a\<rparr>) = session s"
  "session (s\<lparr>inAPMode := a\<rparr>) = session s"
  "session (s\<lparr>stationConnectAttempts := n\<rparr>) = session s"
  "session (s\<lparr>stationConnectFailure := a\<rparr>) = session s"
  "session (s\<lparr>lastModeSwitchTime := t\<rparr>) = session s"
  "session (s\<lparr>uptime := u\<rparr>) = session s"
  "session (s\<lparr>events := ev\<rparr>) = session s"
  by (simp_all add: session_def)

lemma session_prims [simp]:
  "session (emit e s) = session s"
  "session (delay n s) = session s"
  "session (logEvent m s) = session s"
  by (simp_all add: emit_def delay_def logEvent_def)

lemma session_startAccessPoint [simp]: "session (startAccessPoint s) = session s"
  by (simp add: startAccessPoint_def Let_def)

lemma session_startClientWiFi [simp]: "session (startClientWiFi e s) = session s"
  by (simp add: startClientWiFi_def Let_def)

lemma session_updateWiFiMode [simp]: "session (updateWiFiMode e d s) = session s"
  by (simp add: updateWiFiMode_def Let_def)

lemma session_fields:
  assumes "session s' = session s"
  shows "isTracking s' = isTracking s"
    and "hasLeftHome s' = hasLeftHome s"
    and "autoTracking s' = autoTracking s"
    and "totalDistance s' = totalDistance s"
    and "maxSpeed s' = maxSpeed s"
    and "avgSpeed s' = avgSpeed s"
    and "elevationGain s' = elevationGain s"
    and "pointCount s' = pointCount s"
    and "lastLat s' = lastLat s"
    and "lastLon s' = lastLon s"
    and "lastAlt s' = lastAlt s"
    and "trackingStartTime s' = trackingStartTime s"
    and "lastLogTime s' = lastLogTime s"
    and "gpxFile s' = gpxFile s"
    and "files s' = files s"
    and "currentGpxFilename s' = currentGpxFilename s"
    and "gps s' = gps s"
    and "gpsValid s' = gpsValid s"
    and "serverStarted s' = serverStarted s"
    and "homeZoneLat s' = homeZoneLat s"
    and "homeZoneLon s' = homeZoneLon s"
    and "wifiSsid s' = wifiSsid s"
    and "wifiPassword s' = wifiPassword s"
  using arg_cong [OF assms, of isTracking] arg_cong [OF assms, of hasLeftHome]
    arg_cong [OF assms, of autoTracking] arg_cong [OF assms, of totalDistance]
    arg_cong [OF assms, of maxSpeed] arg_cong [OF assms, of avgSpeed]
    arg_cong [OF assms, of elevationGain] arg_cong [OF assms, of pointCount]
    arg_cong [OF assms, of lastLat] arg_cong [OF assms, of lastLon]
    arg_cong [OF assms, of lastAlt] arg_cong [OF assms, of trackingStartTime]
    arg_cong [OF assms, of lastLogTime] arg_cong [OF assms, of gpxFile]
    arg_cong [OF assms, of files] arg_cong [OF assms, of currentGpxFilename]
    arg_cong [OF assms, of gps] arg_cong [OF assms, of gpsValid]
    arg_cong [OF assms, of serverStarted] arg_cong [OF assms, of homeZoneLat]
    arg_cong [OF assms, of homeZoneLon] arg_cong [OF assms, of wifiSsid]
    arg_cong [OF assms, of wifiPassword]
  by (simp_all add: session_def)

lemmas updateWiFiMode_frame [simp] = session_fields [OF session_updateWiFiMode]


section \<open>Evaluating concrete scenarios\<close>

lemmas scenario_defs = envOk_def envStorageFails_def envWifiDown_def cfgNoCredentials_def
  cfgHomeNetwork_def cfgNetworkDown_def fixAt_def northPole_def farEast_def atHome_def
  fixCycle_def requestCycle_def

lemmas eval_defs = run_def loop_def processFix_def updateWiFiMode_def autoTrack_def logPoint_def
  createNewGpx_def closeGpx_def writeGpxPoint_def fileAppend_def gpxHeader_def gpxFooter_def
  startAccessPoint_def startClientWiFi_def setupDevice_def initialState_def logEvent_def
  emit_def delay_def millis_def handleRequest_def toggleTracking_def saveWifi_def setHome_def
  toggleAutoTrack_def wifiUp_def
  Let_def modeSwitchInterval_def logInterval_def maxStationConnectAttempts_def

lemma far_pole: "triggerRadiusKm < 6371 * (pi / 2)" "0.005 < 6371 * (pi / 2)"
  using pi_ge_two by (simp_all add: triggerRadiusKm_def)



section \<open>Basic facts about the operations\<close>

lemma autoTrack_stop:
  "autoTracking s \<Longrightarrow> isTracking s \<Longrightarrow> d < triggerRadiusKm \<Longrightarrow>
   autoTrack e f d s =
     (closeGpx (logEvent ''Returned home; auto stopping tracking'' s))
       \<lparr>isTracking := False, hasLeftHome := False, totalDistance := 0, pointCount := 0\<rparr>"
  by (simp add: autoTrack_def Let_def)

lemma logPoint_idle: "\<not> isTracking s \<Longrightarrow> logPoint f s = s"
  by (simp add: logPoint_def)

lemma closeGpx_fields [simp]:
  "gpxFile (closeGpx s) = None"
  "isTracking (closeGpx s) = isTracking s"
  "hasLeftHome (closeGpx s) = hasLeftHome s"
  "events (closeGpx s) = events s"
  "uptime (closeGpx s) = uptime s"
  by (simp_all add: closeGpx_def split: option.splits)

lemma closeGpx_files:
  "files (closeGpx s) =
     (case gpxFile s of None \<Rightarrow> files s | Some n \<Rightarrow> fileAppend n gpxFooter (files s))"
  by (simp add: closeGpx_def split: option.splits)

lemma prim_fields [simp]:
  "gpxFile (logEvent m s) = gpxFile s"
  "files (logEvent m s) = files s"
  "isTracking (logEvent m s) = isTracking s"
  "hasLeftHome (logEvent m s) = hasLeftHome s"
  "uptime (logEvent m s) = uptime s"
  "events (logEvent m s) = events s @ [(uptime s, Log m)]"
  "isTracking (delay k s) = isTracking s"
  "hasLeftHome (delay k s) = hasLeftHome s"
  "autoTracking (delay k s) = autoTracking s"
  "gpxFile (delay k s) = gpxFile s"
  "files (delay k s) = files s"
  "pointCount (delay k s) = pointCount s"
  "totalDistance (delay k s) = totalDistance s"
  "homeZoneLat (delay k s) = homeZoneLat s"
  "homeZoneLon (delay k s) = homeZoneLon s"
  "events (delay k s) = events s"
  "uptime (delay k s) = uptime s + k"
  by (simp_all add: logEvent_def emit_def delay_def)


lemma createNewGpx_ok:
  "fsOpenOk e \<Longrightarrow> createNewGpx e s =
     s\<lparr>currentGpxFilename := trackNameOf (gps s), gpxFile := Some (trackNameOf (gps s)),
       files := (files s)(trackNameOf (gps s) \<mapsto> gpxHeader),
       trackingStartTime := millis s\<rparr>"
  by (simp add: createNewGpx_def trackNameOf_def Let_def millis_def)

lemma createNewGpx_fails:
  "\<not> fsOpenOk e \<Longrightarrow> createNewGpx e s =
     emit (SerialMsg ''Failed to open GPX file for logging'')
       (s\<lparr>currentGpxFilename := trackNameOf (gps s), gpxFile := None\<rparr>)"
  by (simp add: createNewGpx_def trackNameOf_def Let_def)

lemma autoTrack_start:
  "autoTracking s \<Longrightarrow> \<not> hasLeftHome s \<Longrightarrow> triggerRadiusKm < d \<Longrightarrow>
   autoTrack e f d s =
     (let c = createNewGpx e
                ((logEvent ''Left home zone; auto starting tracking'' s)
                   \<lparr>hasLeftHome := True, isTracking := True\<rparr>)
      in c\<lparr>lastLat := gpsLat f, lastLon := gpsLon f, lastAlt := gpsAlt f,
            lastLogTime := millis c, pointCount := 1\<rparr>)"
  by (simp add: autoTrack_def Let_def)

lemma logPoint_just_logged: "lastLogTime s = millis s \<Longrightarrow> logPoint f s = s"
  by (simp add: logPoint_def logInterval_def)

lemma loop_fix:
  "gpsFix inp = Some f \<Longrightarrow> pending inp = None \<Longrightarrow>
   loop inp s = delay 1 (processFix (env inp) f (delay (elapsed inp) s\<lparr>gps := f, gpsValid := True\<rparr>))"
  by (simp add: loop_def Let_def)

lemma updateWiFiMode_dwell:
  "millis s - lastModeSwitchTime s < modeSwitchInterval \<Longrightarrow> updateWiFiMode e d s = s"
  by (simp add: updateWiFiMode_def)

lemma updateWiFiMode_no_credentials:
  "wifiSsid s = [] \<or> wifiPassword s = [] \<Longrightarrow> inAPMode s \<Longrightarrow> updateWiFiMode e d s = s"
  by (auto simp add: updateWiFiMode_def)



lemmas step_defs = run_def loop_fix processFix_def Let_def
  createNewGpx_ok createNewGpx_fails trackNameOf_def writeGpxPoint_def closeGpx_def
  fileAppend_def gpxHeader_def gpxFooter_def logEvent_def emit_def delay_def millis_def
  modeSwitchInterval_def logInterval_def triggerRadiusKm_def

lemma run_snoc: "run (xs @ [x]) s = loop x (run xs s)"
  by (simp add: run_def)









lemmas startAccessPoint_frame [simp] = session_fields [OF session_startAccessPoint]
lemmas startClientWiFi_frame [simp] = session_fields [OF session_startClientWiFi]

lemma session_saveWifi_fields [simp]:
  "isTracking (saveWifi e a b s) = isTracking s"
  "gpxFile (saveWifi e a b s) = gpxFile s"
  "trackingStartTime (saveWifi e a b s) = trackingStartTime s"
  "avgSpeed (saveWifi e a b s) = avgSpeed s"
  by (simp_all add: saveWifi_def Let_def delay_def logEvent_def emit_def)

lemma setupDevice_fields [simp]:
  "isTracking (setupDevice cfg) = False"
  "gpxFile (setupDevice cfg) = None"
  "trackingStartTime (setupDevice cfg) = 0"
  "avgSpeed (setupDevice cfg) = Some 0"
  by (simp_all add: setupDevice_def Let_def logEvent_def emit_def initialState_def)

section \<open>The file handle and the session state\<close>

lemma logPoint_handle [simp]:
  "gpxFile (logPoint f s) = gpxFile s" "isTracking (logPoint f s) = isTracking s"
  by (simp_all add: logPoint_def Let_def writeGpxPoint_def split: option.splits)

lemma createNewGpx_handle [simp]:
  "isTracking (createNewGpx e s) = isTracking s"
  "gpxFile (createNewGpx e s) = (if fsOpenOk e then Some (trackNameOf (gps s)) else None)"
  by (simp_all add: createNewGpx_def Let_def emit_def trackNameOf_def)

lemma autoTrack_handleTracked:
  "handleTracked s \<Longrightarrow> handleTracked (autoTrack e f d s)"
  by (simp add: handleTracked_def autoTrack_def Let_def)

lemma autoTrack_trackedHandle:
  "fsOpenOk e \<Longrightarrow> trackedHandle s \<Longrightarrow> trackedHandle (autoTrack e f d s)"
  by (simp add: trackedHandle_def autoTrack_def Let_def trackNameOf_def)

lemma handleRequest_handleTracked:
  "handleTracked s \<Longrightarrow> handleTracked (handleRequest e r s)"
  by (cases r)
    (simp_all add: handleTracked_def handleRequest_def toggleTracking_def setHome_def
      toggleAutoTrack_def Let_def logEvent_def emit_def)

lemma handleRequest_trackedHandle:
  "fsOpenOk e \<Longrightarrow> trackedHandle s \<Longrightarrow> trackedHandle (handleRequest e r s)"
  by (cases r)
    (simp_all add: trackedHandle_def handleRequest_def toggleTracking_def setHome_def
      toggleAutoTrack_def Let_def logEvent_def emit_def trackNameOf_def)

lemma loop_handleTracked: "handleTracked s \<Longrightarrow> handleTracked (loop inp s)"
proof -
  assume h: "handleTracked s"
  have a: "handleTracked (delay k t)" if "handleTracked t" for k t
    using that by (simp add: handleTracked_def)
  have p: "handleTracked (processFix e f (t\<lparr>gps := f, gpsValid := True\<rparr>))" if "handleTracked t" for e f t
  proof -
    have "handleTracked (updateWiFiMode e d (t\<lparr>gps := f, gpsValid := True\<rparr>))" for d
      using that by (simp add: handleTracked_def)
    then have "handleTracked (autoTrack e f d (updateWiFiMode e d (t\<lparr>gps := f, gpsValid := True\<rparr>)))" for d
      by (rule autoTrack_handleTracked)
    then show ?thesis
      by (simp add: processFix_def Let_def handleTracked_def)
  qed
  show ?thesis
    unfolding loop_def Let_def
    by (intro a) (auto split: option.splits intro!: a p h handleRequest_handleTracked)
qed

lemma loop_trackedHandle:
  "fsOpenOk (env inp) \<Longrightarrow> trackedHandle s \<Longrightarrow> trackedHandle (loop inp s)"
proof -
  assume ok: "fsOpenOk (env inp)" and h: "trackedHandle s"
  have a: "trackedHandle (delay k t)" if "trackedHandle t" for k t
    using that by (simp add: trackedHandle_def)
  have p: "trackedHandle (processFix (env inp) f (t\<lparr>gps := f, gpsValid := True\<rparr>))"
    if "trackedHandle t" for f t
  proof -
    have "trackedHandle (updateWiFiMode (env inp) d (t\<lparr>gps := f, gpsValid := True\<rparr>))" for d
      using that by (simp add: trackedHandle_def)
    then have "trackedHandle (autoTrack (env inp) f d
        (updateWiFiMode (env inp) d (t\<lparr>gps := f, gpsValid := True\<rparr>)))" for d
      by (rule autoTrack_trackedHandle [OF ok])
    then show ?thesis
      by (simp add: processFix_def Let_def trackedHandle_def)
  qed
  show ?thesis
    unfolding loop_def Let_def
    by (intro a) (auto split: option.splits intro!: a p h handleRequest_trackedHandle ok)
qed

lemma run_handleTracked: "handleTracked s \<Longrightarrow> handleTracked (run inputs s)"
  by (induction inputs arbitrary: s) (simp_all add: run_def loop_handleTracked)

lemma run_trackedHandle:
  "\<forall>i\<in>set inputs. fsOpenOk (env i) \<Longrightarrow> trackedHandle s \<Longrightarrow> trackedHandle (run inputs s)"
  by (induction inputs arbitrary: s) (simp_all add: run_def loop_trackedHandle)


section \<open>The clock and the session-start time\<close>


lemma uptime_startAccessPoint [simp]: "uptime (startAccessPoint s) = uptime s"
  by (simp add: startAccessPoint_def Let_def logEvent_def emit_def)







lemma autoTrack_clock [simp]:
  "uptime (autoTrack e f d s) = uptime s"
  "avgSpeed (autoTrack e f d s) = avgSpeed s"
  by (simp_all add: autoTrack_def Let_def createNewGpx_def closeGpx_def logEvent_def emit_def
      split: option.splits)









lemma delay_startTimeBehind: "startTimeBehind s \<Longrightarrow> startTimeBehind (delay k s)"
  by (auto simp add: startTimeBehind_def delay_def)








section \<open>Connect attempts and the trace\<close>


lemma connectWait_never: "connectWait None t0 t0 = t0 + 10000"
  by (simp add: connectWait.simps [of None] wifiUp_def)

lemma events_startAccessPoint:
  "events (startAccessPoint s) =
     events s @ [(uptime s, WiFi ModeAP), (uptime s, WiFi SoftAP),
                 (uptime s, Log ''WiFi started in AP mode'')]"
  by (simp add: startAccessPoint_def Let_def logEvent_def emit_def)

lemma flag_startAccessPoint [simp]:
  "stationConnectFailure (startAccessPoint s) = stationConnectFailure s"
  "inAPMode (startAccessPoint s)"
  by (simp_all add: startAccessPoint_def Let_def logEvent_def emit_def)

lemma autoStarts_wifi [simp]:
  "autoStarts (startAccessPoint s) = autoStarts s"
  "autoStarts (startClientWiFi e s) = autoStarts s"
  by (simp_all add: startClientWiFi_def Let_def autoStarts_def autoStartLog_def
      events_startAccessPoint logEvent_def emit_def)


lemma connectAttempts_startAccessPoint [simp]:
  "connectAttempts (startAccessPoint s) = connectAttempts s"
  by (simp add: connectAttempts_def connectAttemptEvent_def events_startAccessPoint)

lemma locked_updateWiFiMode:
  assumes "stationConnectFailure t"
  shows "connectAttempts (updateWiFiMode e d t) = connectAttempts t \<and>
         stationConnectFailure (updateWiFiMode e d t)"
proof -
  have a: "connectAttempts (logEvent m u) = connectAttempts u"
    "connectAttempts (delay k u) = connectAttempts u"
    "connectAttempts (emit (WiFi Disconnect) u) = connectAttempts u"
    "stationConnectFailure (logEvent m u) = stationConnectFailure u"
    "stationConnectFailure (delay k u) = stationConnectFailure u"
    "stationConnectFailure (emit ev u) = stationConnectFailure u"
    "wifiConnected (delay k u) = wifiConnected u"
    "wifiConnected (emit ev u) = wifiConnected u"
    "inAPMode (delay k u) = inAPMode u"
    "inAPMode (emit ev u) = inAPMode u" for m u k ev
    by (simp_all add: connectAttempts_def connectAttemptEvent_def logEvent_def emit_def delay_def)
  show ?thesis
    using assms by (simp add: updateWiFiMode_def Let_def a)
qed

lemma timed_out_startClientWiFi:
  assumes "connectTimesOut e s"
  shows "stationConnectAttempts (startClientWiFi e s) =
           (if 3 \<le> stationConnectAttempts s + 1 then 0 else stationConnectAttempts s + 1) \<and>
         (3 \<le> stationConnectAttempts s + 1 \<longrightarrow>
            stationConnectFailure (startClientWiFi e s) \<and> inAPMode (startClientWiFi e s) \<and>
            WiFi ModeAP \<in> snd ` set (events (startClientWiFi e s))) \<and>
         connectAttempts (startClientWiFi e s) = connectAttempts s + 1"
  using assms
  by (simp add: connectTimesOut_def startClientWiFi_def Let_def maxStationConnectAttempts_def
      logEvent_def emit_def events_startAccessPoint connectAttempts_def connectAttemptEvent_def)


lemma autoTrack_idle_home:
  "\<not> isTracking s \<Longrightarrow> \<not> triggerRadiusKm < d \<Longrightarrow> autoTrack e f d s = s"
  by (simp add: autoTrack_def Let_def)


section \<open>Cycles outside the geofence\<close>


lemma autoTrack_frame [simp]:
  "autoTracking (autoTrack e f d s) = autoTracking s"
  "homeZoneLat (autoTrack e f d s) = homeZoneLat s"
  "homeZoneLon (autoTrack e f d s) = homeZoneLon s"
  by (simp_all add: autoTrack_def Let_def createNewGpx_def closeGpx_def logEvent_def emit_def
      split: option.splits)

lemma logPoint_frame [simp]:
  "events (logPoint f s) = events s"
  "hasLeftHome (logPoint f s) = hasLeftHome s"
  "autoTracking (logPoint f s) = autoTracking s"
  "homeZoneLat (logPoint f s) = homeZoneLat s"
  "homeZoneLon (logPoint f s) = homeZoneLon s"
  by (simp_all add: logPoint_def Let_def writeGpxPoint_def split: option.splits)






section \<open>The scenario states, evaluated\<close>

lemma bootIdle_eq: "bootIdle =
     \<lparr>wifiSsid = [], wifiPassword = [], wifiConnected = True, inAPMode = True,
      stationConnectAttempts = 0, stationConnectFailure = False, lastModeSwitchTime = 0,
      homeZoneLat = 0, homeZoneLon = 0, isTracking = False, hasLeftHome = False,
      totalDistance = 0, maxSpeed = 0, avgSpeed = Some 0, elevationGain = 0, pointCount = 0,
      lastLat = 0, lastLon = 0, lastAlt = 0, trackingStartTime = 0, lastLogTime = 0,
      autoTracking = True, currentGpxFilename = (0, 0, 0, 0, 0), gpxFile = None,
      files = Map.empty,
      gps = \<lparr>gpsLat = 0, gpsLon = 0, gpsAlt = 0, gpsSpeed = 0, gpsYear = 0, gpsMonth = 0,
             gpsDay = 0, gpsHour = 0, gpsMinute = 0, gpsSecond = 0\<rparr>,
      gpsValid = False, serverStarted = True, uptime = 0,
      events = [(0, WiFi ModeAP), (0, WiFi SoftAP), (0, Log ''WiFi started in AP mode''),
                (0, Log ''System started'')]\<rparr>"
  unfolding bootIdle_def
  by (simp add: eval_defs scenario_defs)



lemma recordingAtPole_eq:
  "recordingAtPole =
     \<lparr>wifiSsid = [], wifiPassword = [], wifiConnected = True, inAPMode = True,
      stationConnectAttempts = 0, stationConnectFailure = False, lastModeSwitchTime = 0,
      homeZoneLat = 0, homeZoneLon = 0, isTracking = True, hasLeftHome = True,
      totalDistance = 0, maxSpeed = 0, avgSpeed = Some 0, elevationGain = 0, pointCount = 1,
      lastLat = 90, lastLon = 0, lastAlt = 100, trackingStartTime = 0, lastLogTime = 0,
      autoTracking = True, currentGpxFilename = (15, 6, 2025, 12, 0),
      gpxFile = Some (15, 6, 2025, 12, 0),
      files = [(15, 6, 2025, 12, 0) \<mapsto> [XmlDecl, GpxOpen, TrkOpen, TrksegOpen]],
      gps = northPole, gpsValid = True, serverStarted = True, uptime = 1,
      events = [(0, WiFi ModeAP), (0, WiFi SoftAP), (0, Log ''WiFi started in AP mode''),
                (0, Log ''System started''),
                (0, Log ''Left home zone; auto starting tracking'')]\<rparr>"
  unfolding recordingAtPole_def bootIdle_eq using far_pole
  by (simp add: step_defs updateWiFiMode_no_credentials autoTrack_start logPoint_just_logged
      scenario_defs d_pole_home)




lemma bootOffline_eq:
  "bootOffline =
     \<lparr>wifiSsid = ''home'', wifiPassword = ''secret'', wifiConnected = False, inAPMode = False,
      stationConnectAttempts = 1, stationConnectFailure = False, lastModeSwitchTime = 0,
      homeZoneLat = 0, homeZoneLon = 0, isTracking = False, hasLeftHome = False,
      totalDistance = 0, maxSpeed = 0, avgSpeed = Some 0, elevationGain = 0, pointCount = 0,
      lastLat = 0, lastLon = 0, lastAlt = 0, trackingStartTime = 0, lastLogTime = 0,
      autoTracking = True, currentGpxFilename = (0, 0, 0, 0, 0), gpxFile = None,
      files = Map.empty,
      gps = \<lparr>gpsLat = 0, gpsLon = 0, gpsAlt = 0, gpsSpeed = 0, gpsYear = 0, gpsMonth = 0,
             gpsDay = 0, gpsHour = 0, gpsMinute = 0, gpsSecond = 0\<rparr>,
      gpsValid = False, serverStarted = True, uptime = 10000,
      events = [(0, WiFi ModeSTA), (0, WiFi (Begin ''home'' ''secret'')),
                (10000, Log ''System started'')]\<rparr>"
  unfolding bootOffline_def
  by (simp add: setupDevice_def initialState_def startClientWiFi_def Let_def logEvent_def emit_def
     millis_def connectWait_never wifiUp_def cfgNetworkDown_def envWifiDown_def
     maxStationConnectAttempts_def word_le_nat_alt)

lemma twoFailures_eq:
  "twoFailures =
     \<lparr>wifiSsid = ''home'', wifiPassword = ''secret'', wifiConnected = False, inAPMode = False,
      stationConnectAttempts = 2, stationConnectFailure = False, lastModeSwitchTime = 15000,
      homeZoneLat = 0, homeZoneLon = 0, isTracking = False, hasLeftHome = False,
      totalDistance = 0, maxSpeed = 0, avgSpeed = Some 0, elevationGain = 0, pointCount = 0,
      lastLat = 0, lastLon = 0, lastAlt = 0, trackingStartTime = 0, lastLogTime = 0,
      autoTracking = True, currentGpxFilename = (0, 0, 0, 0, 0), gpxFile = None,
      files = Map.empty, gps = atHome, gpsValid = True, serverStarted = True, uptime = 25001,
      events = [(0, WiFi ModeSTA), (0, WiFi (Begin ''home'' ''secret'')),
                (10000, Log ''System started''), (15000, WiFi ModeSTA),
                (15000, WiFi (Begin ''home'' ''secret''))]\<rparr>"
  unfolding twoFailures_def bootOffline_eq
  by (simp add: step_defs updateWiFiMode_def startClientWiFi_def autoTrack_idle_home logPoint_idle
      scenario_defs getDistance_same connectWait_never wifiUp_def maxStationConnectAttempts_def
      word_le_nat_alt)


section \<open>The claims\<close>


text \<open>
  Claim C7. In a Recording state with \<open>autoTracking\<close> set, a cycle whose fix is closer to
  home than the radius makes the Recording-to-Idle transition: the track file, when one
  is open, gets its three terminating tags and is closed, \<open>hasLeftHome\<close> is cleared, and
  point count and total distance are zero afterwards.
\<close>

theorem auto_stop_on_return:
  assumes "isTracking s" and "autoTracking s"
    and "gpsFix inp = Some f" and "pending inp = None"
    and "getDistance (gpsLat f) (gpsLon f) (homeZoneLat s) (homeZoneLon s) < triggerRadiusKm"
  shows "\<not> isTracking (loop inp s) \<and> \<not> hasLeftHome (loop inp s) \<and>
         pointCount (loop inp s) = 0 \<and> totalDistance (loop inp s) = 0 \<and>
         gpxFile (loop inp s) = None \<and>
         files (loop inp s) =
           (case gpxFile s of None \<Rightarrow> files s | Some n \<Rightarrow> fileAppend n gpxFooter (files s))"
  using assms
  by (simp add: loop_def processFix_def Let_def autoTrack_stop logPoint_idle closeGpx_files
      split: option.splits)


theorem auto_stop_on_return_witness:
  "isTracking recordingAtPole \<and> autoTracking recordingAtPole \<and>
   getDistance (gpsLat atHome) (gpsLon atHome)
     (homeZoneLat recordingAtPole) (homeZoneLon recordingAtPole) < triggerRadiusKm \<and>
   \<not> isTracking (loop (fixCycle 1000 atHome envOk) recordingAtPole) \<and>
   \<not> hasLeftHome (loop (fixCycle 1000 atHome envOk) recordingAtPole) \<and>
   pointCount (loop (fixCycle 1000 atHome envOk) recordingAtPole) = 0 \<and>
   totalDistance (loop (fixCycle 1000 atHome envOk) recordingAtPole) = 0 \<and>
   gpxFile (loop (fixCycle 1000 atHome envOk) recordingAtPole) = None \<and>
   files (loop (fixCycle 1000 atHome envOk) recordingAtPole) (15, 6, 2025, 12, 0) =
     Some [XmlDecl, GpxOpen, TrkOpen, TrksegOpen, TrksegClose, TrkClose, GpxClose]"
proof -
  have h: "isTracking recordingAtPole" "autoTracking recordingAtPole"
    "gpsFix (fixCycle 1000 atHome envOk) = Some atHome"
    "pending (fixCycle 1000 atHome envOk) = None"
    "getDistance (gpsLat atHome) (gpsLon atHome)
       (homeZoneLat recordingAtPole) (homeZoneLon recordingAtPole) < triggerRadiusKm"
    by (simp_all add: recordingAtPole_eq fixCycle_def atHome_def fixAt_def getDistance_same
        triggerRadiusKm_def)
  show ?thesis
    using h auto_stop_on_return [OF h]
    by (simp add: recordingAtPole_eq fileAppend_def gpxFooter_def)
qed







text \<open>
  Claim C5, as amended. When the file system cannot create the track file, the start of a
  session is not aborted. The automatic start and the manual start both still set
  \<open>isTracking\<close> and \<open>hasLeftHome\<close> and set the point count to 1; no handle is open, no
  file is written, the automatic start keeps the old session-start time, and the failure
  is reported on the serial line. While no handle is open, accepted points are written
  nowhere.
\<close>

theorem start_despite_storage_failure:
  assumes "\<not> fsOpenOk e"
  shows "(autoTracking s \<and> \<not> hasLeftHome s \<and> triggerRadiusKm < d \<longrightarrow>
            isTracking (autoTrack e f d s) \<and> hasLeftHome (autoTrack e f d s) \<and>
            pointCount (autoTrack e f d s) = 1 \<and> gpxFile (autoTrack e f d s) = None \<and>
            files (autoTrack e f d s) = files s \<and>
            trackingStartTime (autoTrack e f d s) = trackingStartTime s \<and>
            events (autoTrack e f d s) =
              events s @ [(uptime s, Log ''Left home zone; auto starting tracking''),
                          (uptime s, SerialMsg ''Failed to open GPX file for logging'')]) \<and>
         (\<not> isTracking s \<longrightarrow>
            isTracking (toggleTracking e s) \<and> hasLeftHome (toggleTracking e s) \<and>
            pointCount (toggleTracking e s) = 1 \<and> gpxFile (toggleTracking e s) = None \<and>
            files (toggleTracking e s) = files s \<and>
            events (toggleTracking e s) =
              events s @ [(uptime s, Log ''Manual start tracking triggered''),
                          (uptime s, SerialMsg ''Failed to open GPX file for logging'')]) \<and>
         (\<forall>g t. gpxFile t = None \<longrightarrow> files (logPoint g t) = files t)"
  using assms
  by (simp add: autoTrack_start toggleTracking_def createNewGpx_fails Let_def logEvent_def
      emit_def logPoint_def writeGpxPoint_def)

theorem start_despite_storage_failure_witness:
  "\<not> fsOpenOk envStorageFails \<and> autoTracking bootIdle \<and> \<not> hasLeftHome bootIdle \<and>
   \<not> isTracking bootIdle \<and> triggerRadiusKm < 6371 * (pi / 2) \<and>
   isTracking (autoTrack envStorageFails northPole (6371 * (pi / 2)) bootIdle) \<and>
   pointCount (autoTrack envStorageFails northPole (6371 * (pi / 2)) bootIdle) = 1 \<and>
   gpxFile (autoTrack envStorageFails northPole (6371 * (pi / 2)) bootIdle) = None \<and>
   isTracking (toggleTracking envStorageFails bootIdle) \<and>
   gpxFile (toggleTracking envStorageFails bootIdle) = None"
proof -
  have h: "\<not> fsOpenOk envStorageFails"
    by (simp add: envStorageFails_def)
  have b: "autoTracking bootIdle" "\<not> hasLeftHome bootIdle" "\<not> isTracking bootIdle"
    by (simp_all add: bootIdle_eq)
  show ?thesis
    using h b far_pole
      start_despite_storage_failure [OF h, of bootIdle "6371 * (pi / 2)" northPole]
    by simp
qed

text \<open>
  Claim C5 as stated fails: from the idle state after boot, a cycle that leaves the
  geofence while the file system refuses the file ends in Recording with point count 1.
\<close>

theorem storage_failure_leaves_idle_counterexample:
  "\<not> isTracking bootIdle \<and> pointCount bootIdle = 0 \<and>
   \<not> fsOpenOk (env (fixCycle 0 northPole envStorageFails)) \<and>
   isTracking (run [fixCycle 0 northPole envStorageFails] bootIdle) \<and>
   pointCount (run [fixCycle 0 northPole envStorageFails] bootIdle) = 1 \<and>
   gpxFile (run [fixCycle 0 northPole envStorageFails] bootIdle) = None"
  unfolding bootIdle_eq using far_pole
  by (simp add: step_defs updateWiFiMode_no_credentials autoTrack_start logPoint_just_logged
      scenario_defs d_pole_home)






text \<open>
  Claim C6, as amended. In every state the device reaches at the end of a cycle, an open
  track-file handle implies that the session is Recording; and as long as every creation
  of a track file has succeeded, the session is Recording if and only if the handle is
  open. Automatic start and stop, the manual toggle and the logging of points all
  preserve this.
\<close>

theorem handle_only_while_recording:
  "(gpxFile (run inputs (setupDevice cfg)) \<noteq> None \<longrightarrow> isTracking (run inputs (setupDevice cfg))) \<and>
   ((\<forall>i\<in>set inputs. fsOpenOk (env i)) \<longrightarrow>
      (isTracking (run inputs (setupDevice cfg)) \<longleftrightarrow> gpxFile (run inputs (setupDevice cfg)) \<noteq> None))"
proof -
  have a: "handleTracked (run inputs (setupDevice cfg))"
    by (rule run_handleTracked) (simp add: handleTracked_def)
  have b: "trackedHandle (run inputs (setupDevice cfg))" if "\<forall>i\<in>set inputs. fsOpenOk (env i)"
    using that by (rule run_trackedHandle) (simp add: trackedHandle_def)
  show ?thesis
    using a b by (auto simp add: handleTracked_def trackedHandle_def)
qed

theorem handle_only_while_recording_witness:
  "fsOpenOk (env (fixCycle 0 northPole envOk)) \<and>
   isTracking (run [fixCycle 0 northPole envOk] (setupDevice cfgNoCredentials)) \<and>
   gpxFile (run [fixCycle 0 northPole envOk] (setupDevice cfgNoCredentials)) \<noteq> None"
proof -
  have ok: "fsOpenOk (env (fixCycle 0 northPole envOk))"
    by (simp add: fixCycle_def envOk_def)
  have tr: "isTracking (run [fixCycle 0 northPole envOk] (setupDevice cfgNoCredentials))"
    using recordingAtPole_eq by (simp add: recordingAtPole_def bootIdle_def)
  show ?thesis
    using ok tr handle_only_while_recording [of "[fixCycle 0 northPole envOk]" cfgNoCredentials]
    by simp
qed

text \<open>
  Claim C6 as stated fails when the file system refuses the file: after a manual start
  from the boot state the session is Recording and no handle is open.
\<close>

theorem recording_without_handle_counterexample:
  "isTracking (run [requestCycle 0 ToggleTracking envStorageFails] (setupDevice cfgNoCredentials)) \<and>
   gpxFile (run [requestCycle 0 ToggleTracking envStorageFails] (setupDevice cfgNoCredentials)) = None"
  unfolding bootIdle_def [symmetric] bootIdle_eq
  by (simp add: run_def loop_def Let_def handleRequest_def toggleTracking_def createNewGpx_fails
      logEvent_def emit_def delay_def requestCycle_def envStorageFails_def)











text \<open>
  Claim C4. A client connect attempt that times out increments the count of consecutive
  failures; when the count reaches 3, the failure lockout is set, the access point is
  started and the count is back at zero. In a state with the lockout set, the periodic
  evaluation \<open>updateWiFiMode\<close> makes no connect attempt, at home or away, and leaves the
  lockout set.
\<close>

theorem lockout_after_three_failures:
  "(connectTimesOut e s \<longrightarrow>
      stationConnectAttempts (startClientWiFi e s) =
        (if 3 \<le> stationConnectAttempts s + 1 then 0 else stationConnectAttempts s + 1) \<and>
      (3 \<le> stationConnectAttempts s + 1 \<longrightarrow>
         stationConnectFailure (startClientWiFi e s) \<and> inAPMode (startClientWiFi e s) \<and>
         WiFi ModeAP \<in> snd ` set (events (startClientWiFi e s))) \<and>
      connectAttempts (startClientWiFi e s) = connectAttempts s + 1) \<and>
   (stationConnectFailure t \<longrightarrow>
      connectAttempts (updateWiFiMode e' d t) = connectAttempts t \<and>
      stationConnectFailure (updateWiFiMode e' d t))"
  using timed_out_startClientWiFi [of e s] locked_updateWiFiMode [of t e' d] by blast

theorem lockout_after_three_failures_witness:
  "connectTimesOut envWifiDown twoFailures \<and> stationConnectAttempts twoFailures = 2 \<and>
   stationConnectAttempts (startClientWiFi envWifiDown twoFailures) = 0 \<and>
   stationConnectFailure (startClientWiFi envWifiDown twoFailures) \<and>
   inAPMode (startClientWiFi envWifiDown twoFailures) \<and>
   connectAttempts (startClientWiFi envWifiDown twoFailures) = 3 \<and>
   connectAttempts (updateWiFiMode envWifiDown 0 (startClientWiFi envWifiDown twoFailures)) = 3"
proof -
  have a: "connectTimesOut envWifiDown twoFailures"
    by (simp add: connectTimesOut_def envWifiDown_def wifiUp_def)
  have b: "stationConnectAttempts twoFailures = 2" "connectAttempts twoFailures = 2"
    by (simp_all add: twoFailures_eq connectAttempts_def connectAttemptEvent_def)
  have c: "(3 :: uint8) \<le> 2 + 1"
    by simp
  show ?thesis
    using a b c
      lockout_after_three_failures [of envWifiDown twoFailures
        "startClientWiFi envWifiDown twoFailures" envWifiDown 0]
    by simp
qed





end
